theory Spec2Isabelle
  imports Main
begin

section \<open>JavaScript values\<close>

text \<open>
  \<^verbatim>\<open>js/src/types.d.ts\<close> holds type declarations only. A declared type is embedded as
  the set of run-time values it admits, a predicate on \<open>jsval\<close>, under the reading of
  \<^verbatim>\<open>strictNullChecks\<close> (the declarations write \<^verbatim>\<open>| null\<close> where null is meant, lines 124
  and 133). An object is the list of its own properties, looked up by key; a promise is
  given by how it settles. No declaration of the file mentions \<^verbatim>\<open>number\<close>, so the numeric
  payload is immaterial and is carried as an integer.
\<close>

datatype 'a settlement = Fulfilled 'a | Rejected 'a | Pending

datatype jsval =
    JUndefined
  | JNull
  | JBool bool
  | JNum int
  | JStr string
  | JArr "jsval list"
  | JObj "(string \<times> jsval) list"
  | JPromise "jsval settlement"

type_synonym ty = "jsval \<Rightarrow> bool"

section \<open>Type constructors of the declaration language\<close>

definition any_t :: ty where
  "any_t v = True"

definition never_t :: ty where
  "never_t v = False"

definition null_t :: ty where
  "null_t v = (v = JNull)"

definition string_t :: ty where
  "string_t v = (case v of JStr s \<Rightarrow> True | _ \<Rightarrow> False)"

definition true_t :: ty where
  "true_t v = (v = JBool True)"

definition lit_t :: "string \<Rightarrow> ty" where
  "lit_t s v = (v = JStr s)"

definition union_t :: "ty \<Rightarrow> ty \<Rightarrow> ty" where
  "union_t a b v = (a v \<or> b v)"

definition inter_t :: "ty \<Rightarrow> ty \<Rightarrow> ty" where
  "inter_t a b v = (a v \<and> b v)"

definition array_t :: "ty \<Rightarrow> ty" where
  "array_t t v = (case v of JArr xs \<Rightarrow> list_all t xs | _ \<Rightarrow> False)"

text \<open>\<^verbatim>\<open>Promise<T>\<close> constrains the value a promise fulfils with, nothing else.\<close>

definition Promise :: "ty \<Rightarrow> ty" where
  "Promise t v = (case v of JPromise (Fulfilled x) \<Rightarrow> t x | JPromise _ \<Rightarrow> True | _ \<Rightarrow> False)"

text \<open>
  \<^verbatim>\<open>Record<string, any>\<close>: a string index signature of type \<^verbatim>\<open>any\<close> admits every
  non-primitive value and nothing else.
\<close>

definition Record_string_any :: ty where
  "Record_string_any v =
     (case v of JObj ps \<Rightarrow> True | JArr xs \<Rightarrow> True | JPromise p \<Rightarrow> True | _ \<Rightarrow> False)"

text \<open>
  A member of an object type is required (\<^verbatim>\<open>k: T\<close>) or optional (\<^verbatim>\<open>k?: T\<close>). An optional
  member may be missing or hold \<^verbatim>\<open>undefined\<close> (\<^verbatim>\<open>exactOptionalPropertyTypes\<close> is off by
  default). An object type is met by an object whose own properties meet its members;
  properties it does not name are allowed. Arrays, promises and primitive values have
  none of the properties the declarations name and are assignable to none of their
  object types.
\<close>

datatype member = Req ty | Opt ty

fun member_ok :: "member \<Rightarrow> jsval option \<Rightarrow> bool" where
  "member_ok (Req t) None = False"
| "member_ok (Req t) (Some x) = t x"
| "member_ok (Opt t) None = True"
| "member_ok (Opt t) (Some x) = (x = JUndefined \<or> t x)"

type_synonym members = "(string \<times> member) list"

definition obj_t :: "members \<Rightarrow> ty" where
  "obj_t ms v =
     (case v of JObj ps \<Rightarrow> list_all (\<lambda>(k, m). member_ok m (map_of ps k)) ms | _ \<Rightarrow> False)"

text \<open>An index signature \<^verbatim>\<open>[key: string]: T\<close> inside an object type literal.\<close>

definition index_t :: "ty \<Rightarrow> ty" where
  "index_t t v = (case v of JObj ps \<Rightarrow> list_all (\<lambda>(k, x). t x) ps | _ \<Rightarrow> False)"

definition Omit :: "members \<Rightarrow> string \<Rightarrow> members" where
  "Omit ms n = filter (\<lambda>(k, m). k \<noteq> n) ms"

section \<open>The declarations of types.d.ts\<close>

definition Schema :: ty where
  "Schema = Record_string_any"

definition ToolDefinition_members :: members where
  "ToolDefinition_members =
     [(''name'', Req string_t),
      (''description'', Opt string_t),
      (''inputSchema'', Req Schema),
      (''outputSchema'', Opt Schema)]"

definition ToolDefinition :: ty where
  "ToolDefinition = obj_t ToolDefinition_members"

definition ToolArgument :: ty where
  "ToolArgument = union_t string_t ToolDefinition"

definition HasMetadata_members :: members where
  "HasMetadata_members = [(''metadata'', Opt Record_string_any)]"

definition HasMetadata :: ty where
  "HasMetadata = obj_t HasMetadata_members"

text \<open>\<open>ModelConfig\<close> is the type parameter; its default is \<^verbatim>\<open>Record<string, any>\<close>.\<close>

definition PromptMetadata_members :: "ty \<Rightarrow> members" where
  "PromptMetadata_members ModelConfig =
     HasMetadata_members @
     [(''name'', Opt string_t),
      (''variant'', Opt string_t),
      (''model'', Opt string_t),
      (''tools'', Opt (array_t string_t)),
      (''toolDefs'', Opt (array_t ToolDefinition)),
      (''config'', Opt ModelConfig),
      (''input'', Opt (obj_t
         [(''default'', Opt Record_string_any),
          (''schema'', Opt Schema)])),
      (''output'', Opt (obj_t
         [(''format'', Opt (union_t string_t (union_t (lit_t ''json'') (lit_t ''text'')))),
          (''schema'', Opt Schema)]))]"

definition PromptMetadata :: "ty \<Rightarrow> ty" where
  "PromptMetadata ModelConfig = obj_t (PromptMetadata_members ModelConfig)"

definition EmptyPart_members :: members where
  "EmptyPart_members =
     HasMetadata_members @
     [(''text'', Opt never_t),
      (''data'', Opt never_t),
      (''media'', Opt never_t),
      (''toolRequest'', Opt never_t),
      (''toolResponse'', Opt never_t)]"

definition EmptyPart :: ty where
  "EmptyPart = obj_t EmptyPart_members"

definition TextPart :: ty where
  "TextPart = inter_t (obj_t (Omit EmptyPart_members ''text'')) (obj_t [(''text'', Req string_t)])"

definition DataPart :: ty where
  "DataPart =
     inter_t (obj_t (Omit EmptyPart_members ''data'')) (obj_t [(''data'', Req Record_string_any)])"

definition MediaPart :: ty where
  "MediaPart =
     inter_t (obj_t (Omit EmptyPart_members ''media''))
       (obj_t [(''media'', Req (obj_t [(''url'', Req string_t), (''contentType'', Opt string_t)]))])"

definition ToolRequestPart :: "ty \<Rightarrow> ty" where
  "ToolRequestPart Input =
     inter_t (obj_t (Omit EmptyPart_members ''toolRequest''))
       (obj_t [(''toolRequest'', Req (obj_t
          [(''name'', Req string_t), (''input'', Opt Input), (''ref'', Opt string_t)]))])"

definition ToolResponsePart :: "ty \<Rightarrow> ty" where
  "ToolResponsePart Output =
     inter_t (obj_t (Omit EmptyPart_members ''toolResponse''))
       (obj_t [(''toolResponse'', Req (obj_t
          [(''name'', Req string_t), (''output'', Opt Output), (''ref'', Opt string_t)]))])"

definition PendingPart :: ty where
  "PendingPart =
     inter_t EmptyPart
       (obj_t [(''metadata'', Req (inter_t (obj_t [(''pending'', Req true_t)]) (index_t any_t)))])"

text \<open>The union takes \<open>ToolRequestPart\<close> and \<open>ToolResponsePart\<close> at their default \<^verbatim>\<open>any\<close>.\<close>

definition Part :: ty where
  "Part =
     union_t TextPart
       (union_t DataPart
         (union_t MediaPart
           (union_t (ToolRequestPart any_t)
             (union_t (ToolResponsePart any_t) PendingPart))))"

definition Message_members :: members where
  "Message_members =
     HasMetadata_members @
     [(''role'', Req (union_t (lit_t ''user'')
                       (union_t (lit_t ''model'') (union_t (lit_t ''tool'') (lit_t ''system''))))),
      (''content'', Req (array_t Part))]"

definition Message :: ty where
  "Message = obj_t Message_members"

definition Document_members :: members where
  "Document_members = HasMetadata_members @ [(''content'', Req (array_t Part))]"

definition Document :: ty where
  "Document = obj_t Document_members"

text \<open>\<open>Variables\<close> is a type parameter (default \<^verbatim>\<open>any\<close>); \<open>State\<close> is declared and unused.\<close>

definition DataArgument_members :: "ty \<Rightarrow> members" where
  "DataArgument_members Variables =
     [(''input'', Opt Variables),
      (''docs'', Opt (array_t Document)),
      (''messages'', Opt (array_t Message)),
      (''context'', Opt Record_string_any)]"

definition DataArgument :: "ty \<Rightarrow> ty" where
  "DataArgument Variables = obj_t (DataArgument_members Variables)"

definition JSONSchema :: ty where
  "JSONSchema = any_t"

text \<open>
  An interface with one call signature is a function type: the parameters in order, each
  required or optional, and the type of the result.
\<close>

record call_signature =
  params :: members
  result :: ty

definition SchemaResolver :: call_signature where
  "SchemaResolver =
     \<lparr>params = [(''schemaName'', Req string_t)],
      result = union_t JSONSchema (union_t null_t (Promise (union_t JSONSchema null_t)))\<rparr>"

definition ToolResolver :: call_signature where
  "ToolResolver =
     \<lparr>params = [(''toolName'', Req string_t)],
      result = union_t ToolDefinition (union_t null_t (Promise (union_t ToolDefinition null_t)))\<rparr>"

definition RenderedPrompt_members :: "ty \<Rightarrow> members" where
  "RenderedPrompt_members ModelConfig =
     PromptMetadata_members ModelConfig @ [(''messages'', Req (array_t Message))]"

definition RenderedPrompt :: "ty \<Rightarrow> ty" where
  "RenderedPrompt ModelConfig = obj_t (RenderedPrompt_members ModelConfig)"

definition CompiledPrompt :: "ty \<Rightarrow> call_signature" where
  "CompiledPrompt ModelConfig =
     \<lparr>params = [(''data'', Req (DataArgument any_t)), (''options'', Opt (PromptMetadata ModelConfig))],
      result = Promise (RenderedPrompt ModelConfig)\<rparr>"

section \<open>Reading values and calling functions\<close>

text \<open>The own property \<open>k\<close> of a value, when it has one.\<close>

definition own_prop :: "jsval \<Rightarrow> string \<Rightarrow> jsval option" where
  "own_prop v k = (case v of JObj ps \<Rightarrow> map_of ps k | _ \<Rightarrow> None)"

text \<open>A field is populated when the property exists and is not \<^verbatim>\<open>undefined\<close>.\<close>

definition populated :: "jsval \<Rightarrow> string \<Rightarrow> bool" where
  "populated v k = (case own_prop v k of Some x \<Rightarrow> x \<noteq> JUndefined | None \<Rightarrow> False)"

definition payload_fields :: "string list" where
  "payload_fields = [''text'', ''data'', ''media'', ''toolRequest'', ''toolResponse'']"

definition payload_count :: "jsval \<Rightarrow> nat" where
  "payload_count v = length (filter (populated v) payload_fields)"

text \<open>The value without its property \<open>n\<close>, and with \<open>n\<close> set to \<open>x\<close>.\<close>

definition without :: "string \<Rightarrow> jsval \<Rightarrow> jsval" where
  "without n v = (case v of JObj ps \<Rightarrow> JObj (filter (\<lambda>(k, x). k \<noteq> n) ps) | _ \<Rightarrow> v)"

definition with_prop :: "string \<Rightarrow> jsval \<Rightarrow> jsval \<Rightarrow> jsval" where
  "with_prop n x v = (case v of JObj ps \<Rightarrow> JObj ((n, x) # ps) | _ \<Rightarrow> v)"

text \<open>
  A call is well-typed when the arguments match the parameters in order: an argument
  past the last parameter is an error, a parameter past the last argument receives
  nothing.
\<close>

fun args_ok :: "members \<Rightarrow> jsval list \<Rightarrow> bool" where
  "args_ok [] [] = True"
| "args_ok [] (a # as) = False"
| "args_ok ((n, m) # ps) [] = (member_ok m None \<and> args_ok ps [])"
| "args_ok ((n, m) # ps) (a # as) = (member_ok m (Some a) \<and> args_ok ps as)"

definition accepts :: "call_signature \<Rightarrow> jsval list \<Rightarrow> bool" where
  "accepts sig as = args_ok (params sig) as"

text \<open>The members of the union \<open>Part\<close>, in the order of the declaration.\<close>

definition Part_variants :: "ty list" where
  "Part_variants =
     [TextPart, DataPart, MediaPart, ToolRequestPart any_t, ToolResponsePart any_t, PendingPart]"

text \<open>\<^verbatim>\<open>metadata.pending === true\<close>.\<close>

definition pending_marked :: "jsval \<Rightarrow> bool" where
  "pending_marked v =
     (case own_prop v ''metadata'' of
        Some m \<Rightarrow> own_prop m ''pending'' = Some (JBool True)
      | None \<Rightarrow> False)"

section \<open>Basic facts\<close>

lemma obj_t_JObj [simp]:
  "obj_t ms (JObj ps) = list_all (\<lambda>(k, m). member_ok m (map_of ps k)) ms"
  by (simp add: obj_t_def)

lemma obj_t_is_object: "obj_t ms v \<Longrightarrow> \<exists>ps. v = JObj ps"
  by (cases v) (simp_all add: obj_t_def)

lemma ToolDefinition_is_object: "ToolDefinition d \<Longrightarrow> \<exists>ps. d = JObj ps"
  by (auto simp: ToolDefinition_def dest: obj_t_is_object)

lemma opt_never_unpopulated:
  "member_ok (Opt never_t) (map_of ps k) \<Longrightarrow> \<not> populated (JObj ps) k"
  by (cases "map_of ps k") (simp_all add: populated_def own_prop_def never_t_def)

lemma req_populated:
  "member_ok (Req t) (map_of ps k) \<Longrightarrow> \<not> t JUndefined \<Longrightarrow> populated (JObj ps) k"
  by (cases "map_of ps k") (auto simp add: populated_def own_prop_def)

lemma undefined_excluded:
  "\<not> string_t JUndefined" "\<not> Record_string_any JUndefined" "\<not> obj_t ms JUndefined"
  by (simp_all add: string_t_def Record_string_any_def obj_t_def)

lemma TextPart_payload:
  assumes "TextPart v"
  shows "filter (populated v) payload_fields = [''text'']"
proof -
  from assms obtain ps where v: "v = JObj ps"
    by (auto simp: TextPart_def inter_t_def dest: obj_t_is_object)
  from assms have "populated v ''text''" "\<not> populated v ''data''" "\<not> populated v ''media''"
    "\<not> populated v ''toolRequest''" "\<not> populated v ''toolResponse''"
    unfolding v
    by (auto simp: TextPart_def inter_t_def Omit_def EmptyPart_members_def HasMetadata_members_def
        undefined_excluded dest: opt_never_unpopulated intro: req_populated)
  then show ?thesis by (simp add: payload_fields_def)
qed

lemmas part_member_defs = inter_t_def Omit_def EmptyPart_members_def HasMetadata_members_def

lemma DataPart_payload:
  assumes "DataPart v"
  shows "filter (populated v) payload_fields = [''data'']"
proof -
  from assms obtain ps where v: "v = JObj ps"
    by (auto simp: DataPart_def inter_t_def dest: obj_t_is_object)
  from assms have "\<not> populated v ''text''" "populated v ''data''" "\<not> populated v ''media''"
    "\<not> populated v ''toolRequest''" "\<not> populated v ''toolResponse''"
    unfolding v
    by (auto simp: DataPart_def part_member_defs undefined_excluded
        dest: opt_never_unpopulated intro: req_populated)
  then show ?thesis by (simp add: payload_fields_def)
qed

lemma MediaPart_payload:
  assumes "MediaPart v"
  shows "filter (populated v) payload_fields = [''media'']"
proof -
  from assms obtain ps where v: "v = JObj ps"
    by (auto simp: MediaPart_def inter_t_def dest: obj_t_is_object)
  from assms have "\<not> populated v ''text''" "\<not> populated v ''data''" "populated v ''media''"
    "\<not> populated v ''toolRequest''" "\<not> populated v ''toolResponse''"
    unfolding v
    by (auto simp: MediaPart_def part_member_defs undefined_excluded
        dest: opt_never_unpopulated intro: req_populated)
  then show ?thesis by (simp add: payload_fields_def)
qed

lemma ToolRequestPart_payload:
  assumes "ToolRequestPart Input v"
  shows "filter (populated v) payload_fields = [''toolRequest'']"
proof -
  from assms obtain ps where v: "v = JObj ps"
    by (auto simp: ToolRequestPart_def inter_t_def dest: obj_t_is_object)
  from assms have "\<not> populated v ''text''" "\<not> populated v ''data''" "\<not> populated v ''media''"
    "populated v ''toolRequest''" "\<not> populated v ''toolResponse''"
    unfolding v
    by (auto simp: ToolRequestPart_def part_member_defs undefined_excluded
        dest: opt_never_unpopulated intro: req_populated)
  then show ?thesis by (simp add: payload_fields_def)
qed

lemma ToolResponsePart_payload:
  assumes "ToolResponsePart Output v"
  shows "filter (populated v) payload_fields = [''toolResponse'']"
proof -
  from assms obtain ps where v: "v = JObj ps"
    by (auto simp: ToolResponsePart_def inter_t_def dest: obj_t_is_object)
  from assms have "\<not> populated v ''text''" "\<not> populated v ''data''" "\<not> populated v ''media''"
    "\<not> populated v ''toolRequest''" "populated v ''toolResponse''"
    unfolding v
    by (auto simp: ToolResponsePart_def part_member_defs undefined_excluded
        dest: opt_never_unpopulated intro: req_populated)
  then show ?thesis by (simp add: payload_fields_def)
qed

lemma PendingPart_payload:
  assumes "PendingPart v"
  shows "filter (populated v) payload_fields = []"
proof -
  from assms obtain ps where v: "v = JObj ps"
    by (auto simp: PendingPart_def EmptyPart_def inter_t_def dest: obj_t_is_object)
  from assms have "\<not> populated v ''text''" "\<not> populated v ''data''" "\<not> populated v ''media''"
    "\<not> populated v ''toolRequest''" "\<not> populated v ''toolResponse''"
    unfolding v
    by (auto simp: PendingPart_def EmptyPart_def part_member_defs dest: opt_never_unpopulated)
  then show ?thesis by (simp add: payload_fields_def)
qed

lemma PendingPart_marked:
  assumes "PendingPart v"
  shows "pending_marked v"
proof -
  from assms obtain ps where v: "v = JObj ps"
    by (auto simp: PendingPart_def EmptyPart_def inter_t_def dest: obj_t_is_object)
  from assms obtain m where m: "map_of ps ''metadata'' = Some m"
    and ok: "obj_t [(''pending'', Req true_t)] m"
    unfolding v by (cases "map_of ps ''metadata''") (auto simp: PendingPart_def inter_t_def)
  from ok obtain qs where qs: "m = JObj qs"
    by (auto dest: obj_t_is_object)
  from ok have "map_of qs ''pending'' = Some (JBool True)"
    unfolding qs by (cases "map_of qs ''pending''") (auto simp: true_t_def)
  then show ?thesis
    by (simp add: pending_marked_def own_prop_def v m qs)
qed

lemma Part_cases:
  assumes "Part v"
  obtains "TextPart v" | "DataPart v" | "MediaPart v" | "ToolRequestPart any_t v"
    | "ToolResponsePart any_t v" | "PendingPart v"
  using assms by (auto simp: Part_def union_t_def)

lemma Part_one_variant:
  assumes "Part v"
  shows "length (filter (\<lambda>t. t v) Part_variants) = 1"
  using assms
proof (cases rule: Part_cases)
  case 1
  from TextPart_payload [OF 1] show ?thesis
    by (auto simp: Part_variants_def 1 dest: DataPart_payload MediaPart_payload
        ToolRequestPart_payload ToolResponsePart_payload PendingPart_payload)
next
  case 2
  from DataPart_payload [OF 2] show ?thesis
    by (auto simp: Part_variants_def 2 dest: TextPart_payload MediaPart_payload
        ToolRequestPart_payload ToolResponsePart_payload PendingPart_payload)
next
  case 3
  from MediaPart_payload [OF 3] show ?thesis
    by (auto simp: Part_variants_def 3 dest: TextPart_payload DataPart_payload
        ToolRequestPart_payload ToolResponsePart_payload PendingPart_payload)
next
  case 4
  from ToolRequestPart_payload [OF 4] show ?thesis
    by (auto simp: Part_variants_def 4 dest: TextPart_payload DataPart_payload MediaPart_payload
        ToolResponsePart_payload PendingPart_payload)
next
  case 5
  from ToolResponsePart_payload [OF 5] show ?thesis
    by (auto simp: Part_variants_def 5 dest: TextPart_payload DataPart_payload MediaPart_payload
        ToolRequestPart_payload PendingPart_payload)
next
  case 6
  from PendingPart_payload [OF 6] show ?thesis
    by (auto simp: Part_variants_def 6 dest: TextPart_payload DataPart_payload MediaPart_payload
        ToolRequestPart_payload ToolResponsePart_payload)
qed

lemma map_of_without:
  "map_of (filter (\<lambda>(k, x). k \<noteq> n) ps) k' = (if k' = n then None else map_of ps k')"
  by (induction ps) auto

lemma without_JObj [simp]: "without n (JObj ps) = JObj (filter (\<lambda>(k, x). k \<noteq> n) ps)"
  by (simp add: without_def)

lemma with_prop_JObj [simp]: "with_prop n x (JObj ps) = JObj ((n, x) # ps)"
  by (simp add: with_prop_def)

lemma own_prop_JObj [simp]: "own_prop (JObj ps) k = map_of ps k"
  by (simp add: own_prop_def)

lemma req_string: "member_ok (Req string_t) r \<Longrightarrow> \<exists>s. r = Some (JStr s)"
  by (cases r; cases "the r") (auto simp: string_t_def)

lemma req_present: "member_ok (Req t) r \<Longrightarrow> \<exists>x. r = Some x \<and> t x"
  by (cases r) auto

lemma array_t_JArr [simp]: "array_t t (JArr xs) = list_all t xs"
  by (simp add: array_t_def)

lemma req_array: "member_ok (Req (array_t t)) r \<Longrightarrow> \<exists>xs. r = Some (JArr xs) \<and> list_all t xs"
  by (cases r; cases "the r") (auto simp: array_t_def)

section \<open>Part\<close>

text \<open>
  C1: every value of the union \<open>Part\<close> has exactly one of the payload fields text, data,
  media, toolRequest, toolResponse populated, or none of them and then its metadata is
  present with pending equal to true; and it belongs to exactly one of the six variants.
\<close>

theorem C1_one_payload_or_pending:
  assumes "Part v"
  shows "(payload_count v = 1 \<or> (payload_count v = 0 \<and> pending_marked v))
       \<and> length (filter (\<lambda>t. t v) Part_variants) = 1"
proof -
  have "payload_count v = 1 \<or> (payload_count v = 0 \<and> pending_marked v)"
    using assms
  proof (cases rule: Part_cases)
    case 6
    then show ?thesis
      by (simp add: payload_count_def PendingPart_payload PendingPart_marked)
  qed (simp_all add: payload_count_def TextPart_payload DataPart_payload MediaPart_payload
      ToolRequestPart_payload ToolResponsePart_payload)
  with Part_one_variant [OF assms] show ?thesis by simp
qed

theorem C1_witness:
  "Part (JObj [(''text'', JStr ''hi'')])
   \<and> payload_count (JObj [(''text'', JStr ''hi'')]) = 1
   \<and> length (filter (\<lambda>t. t (JObj [(''text'', JStr ''hi'')])) Part_variants) = 1
   \<and> Part (JObj [(''metadata'', JObj [(''pending'', JBool True)])])
   \<and> payload_count (JObj [(''metadata'', JObj [(''pending'', JBool True)])]) = 0
   \<and> pending_marked (JObj [(''metadata'', JObj [(''pending'', JBool True)])])"
proof -
  have p: "Part (JObj [(''text'', JStr ''hi'')])"
    by (simp add: Part_def union_t_def TextPart_def part_member_defs string_t_def)
  have q: "Part (JObj [(''metadata'', JObj [(''pending'', JBool True)])])"
    by (simp add: Part_def union_t_def PendingPart_def EmptyPart_def part_member_defs
        Record_string_any_def true_t_def index_t_def any_t_def)
  have "payload_count (JObj [(''text'', JStr ''hi'')]) = 1"
    "payload_count (JObj [(''metadata'', JObj [(''pending'', JBool True)])]) = 0"
    by (simp_all add: payload_count_def payload_fields_def populated_def own_prop_def)
  with p q C1_one_payload_or_pending [OF p] C1_one_payload_or_pending [OF q]
  show ?thesis by simp
qed

subsection \<open>Metadata of a part\<close>

lemma TextPart_metadata:
  assumes "TextPart v"
  shows "TextPart (without ''metadata'' v)"
    and "Record_string_any m \<Longrightarrow> TextPart (with_prop ''metadata'' m v)"
proof -
  from assms obtain ps where v: "v = JObj ps"
    by (auto simp: TextPart_def inter_t_def dest: obj_t_is_object)
  from assms show "TextPart (without ''metadata'' v)"
    by (simp add: v TextPart_def part_member_defs map_of_without)
  from assms show "Record_string_any m \<Longrightarrow> TextPart (with_prop ''metadata'' m v)"
    by (simp add: v TextPart_def part_member_defs)
qed

lemma DataPart_metadata:
  assumes "DataPart v"
  shows "DataPart (without ''metadata'' v)"
    and "Record_string_any m \<Longrightarrow> DataPart (with_prop ''metadata'' m v)"
proof -
  from assms obtain ps where v: "v = JObj ps"
    by (auto simp: DataPart_def inter_t_def dest: obj_t_is_object)
  from assms show "DataPart (without ''metadata'' v)"
    by (simp add: v DataPart_def part_member_defs map_of_without)
  from assms show "Record_string_any m \<Longrightarrow> DataPart (with_prop ''metadata'' m v)"
    by (simp add: v DataPart_def part_member_defs)
qed

lemma MediaPart_metadata:
  assumes "MediaPart v"
  shows "MediaPart (without ''metadata'' v)"
    and "Record_string_any m \<Longrightarrow> MediaPart (with_prop ''metadata'' m v)"
proof -
  from assms obtain ps where v: "v = JObj ps"
    by (auto simp: MediaPart_def inter_t_def dest: obj_t_is_object)
  from assms show "MediaPart (without ''metadata'' v)"
    by (simp add: v MediaPart_def part_member_defs map_of_without)
  from assms show "Record_string_any m \<Longrightarrow> MediaPart (with_prop ''metadata'' m v)"
    by (simp add: v MediaPart_def part_member_defs)
qed

lemma ToolRequestPart_metadata:
  assumes "ToolRequestPart Input v"
  shows "ToolRequestPart Input (without ''metadata'' v)"
    and "Record_string_any m \<Longrightarrow> ToolRequestPart Input (with_prop ''metadata'' m v)"
proof -
  from assms obtain ps where v: "v = JObj ps"
    by (auto simp: ToolRequestPart_def inter_t_def dest: obj_t_is_object)
  from assms show "ToolRequestPart Input (without ''metadata'' v)"
    by (simp add: v ToolRequestPart_def part_member_defs map_of_without)
  from assms show "Record_string_any m \<Longrightarrow> ToolRequestPart Input (with_prop ''metadata'' m v)"
    by (simp add: v ToolRequestPart_def part_member_defs)
qed

lemma ToolResponsePart_metadata:
  assumes "ToolResponsePart Output v"
  shows "ToolResponsePart Output (without ''metadata'' v)"
    and "Record_string_any m \<Longrightarrow> ToolResponsePart Output (with_prop ''metadata'' m v)"
proof -
  from assms obtain ps where v: "v = JObj ps"
    by (auto simp: ToolResponsePart_def inter_t_def dest: obj_t_is_object)
  from assms show "ToolResponsePart Output (without ''metadata'' v)"
    by (simp add: v ToolResponsePart_def part_member_defs map_of_without)
  from assms show "Record_string_any m \<Longrightarrow> ToolResponsePart Output (with_prop ''metadata'' m v)"
    by (simp add: v ToolResponsePart_def part_member_defs)
qed

lemma populated_without:
  "k \<noteq> n \<Longrightarrow> populated (without n v) k = populated v k"
  by (cases v) (simp_all add: populated_def without_def own_prop_def map_of_without)

lemma not_marked_without: "\<not> pending_marked (without ''metadata'' v)"
  by (cases v) (simp_all add: pending_marked_def without_def own_prop_def map_of_without)

lemma PendingPart_needs_metadata:
  assumes "PendingPart v"
  shows "\<not> Part (without ''metadata'' v)"
proof
  assume p: "Part (without ''metadata'' v)"
  have "filter (populated (without ''metadata'' v)) payload_fields = filter (populated v) payload_fields"
    by (simp add: payload_fields_def populated_without)
  then have e: "filter (populated (without ''metadata'' v)) payload_fields = []"
    by (simp add: PendingPart_payload [OF assms])
  from p show False
  proof (cases rule: Part_cases)
    case 6
    then show ?thesis
      using not_marked_without [of v] by (auto dest: PendingPart_marked)
  qed (use e in \<open>auto dest: TextPart_payload DataPart_payload MediaPart_payload
      ToolRequestPart_payload ToolResponsePart_payload\<close>)
qed

lemma Part_metadata_type:
  assumes "Part v"
  shows "member_ok (Opt Record_string_any) (own_prop v ''metadata'')"
  using assms
proof (cases rule: Part_cases)
  case 1
  then obtain ps where "v = JObj ps"
    by (auto simp: TextPart_def inter_t_def dest: obj_t_is_object)
  with 1 show ?thesis by (simp add: TextPart_def part_member_defs)
next
  case 2
  then obtain ps where "v = JObj ps"
    by (auto simp: DataPart_def inter_t_def dest: obj_t_is_object)
  with 2 show ?thesis by (simp add: DataPart_def part_member_defs)
next
  case 3
  then obtain ps where "v = JObj ps"
    by (auto simp: MediaPart_def inter_t_def dest: obj_t_is_object)
  with 3 show ?thesis by (simp add: MediaPart_def part_member_defs)
next
  case 4
  then obtain ps where "v = JObj ps"
    by (auto simp: ToolRequestPart_def inter_t_def dest: obj_t_is_object)
  with 4 show ?thesis by (simp add: ToolRequestPart_def part_member_defs)
next
  case 5
  then obtain ps where "v = JObj ps"
    by (auto simp: ToolResponsePart_def inter_t_def dest: obj_t_is_object)
  with 5 show ?thesis by (simp add: ToolResponsePart_def part_member_defs)
next
  case 6
  then obtain ps where "v = JObj ps"
    by (auto simp: PendingPart_def inter_t_def dest: obj_t_is_object)
  with 6 show ?thesis by (simp add: PendingPart_def EmptyPart_def part_member_defs)
qed

text \<open>
  Read for all six variants, "a part of any variant is valid without a metadata field"
  fails at the pending part: the part that holds only \<^verbatim>\<open>metadata: {pending: true}\<close> is a
  \<open>PendingPart\<close>, and without its metadata it is the empty object, which is no \<open>Part\<close>.
\<close>

theorem C7_pending_needs_metadata_counterexample:
  "PendingPart (JObj [(''metadata'', JObj [(''pending'', JBool True)])])
   \<and> \<not> Part (without ''metadata'' (JObj [(''metadata'', JObj [(''pending'', JBool True)])]))
   \<and> \<not> Part (JObj [])"
proof -
  have p: "PendingPart (JObj [(''metadata'', JObj [(''pending'', JBool True)])])"
    by (simp add: PendingPart_def EmptyPart_def part_member_defs Record_string_any_def true_t_def
        index_t_def any_t_def)
  have "without ''metadata'' (JObj [(''metadata'', JObj [(''pending'', JBool True)])]) = JObj []"
    by simp
  with p PendingPart_needs_metadata [OF p] show ?thesis by simp
qed

text \<open>
  C7, amended: in the five variants that carry a payload (\<open>TextPart\<close>, \<open>DataPart\<close>,
  \<open>MediaPart\<close>, \<open>ToolRequestPart\<close>, \<open>ToolResponsePart\<close>) \<open>metadata\<close> is optional and
  free-form: the part stays valid without it and with any \<^verbatim>\<open>Record<string, any>\<close> in its
  place. A \<open>PendingPart\<close> has \<open>metadata\<close> with \<open>pending\<close> equal to true and is no \<open>Part\<close>
  without it. The \<open>metadata\<close> of any \<open>Part\<close> is missing, \<^verbatim>\<open>undefined\<close> or such a record.
\<close>

theorem C7_metadata_optional_on_payload_parts:
  "(TextPart t \<longrightarrow> TextPart (without ''metadata'' t)
       \<and> (Record_string_any m \<longrightarrow> TextPart (with_prop ''metadata'' m t)))
   \<and> (DataPart d \<longrightarrow> DataPart (without ''metadata'' d)
       \<and> (Record_string_any m \<longrightarrow> DataPart (with_prop ''metadata'' m d)))
   \<and> (MediaPart e \<longrightarrow> MediaPart (without ''metadata'' e)
       \<and> (Record_string_any m \<longrightarrow> MediaPart (with_prop ''metadata'' m e)))
   \<and> (ToolRequestPart Input q \<longrightarrow> ToolRequestPart Input (without ''metadata'' q)
       \<and> (Record_string_any m \<longrightarrow> ToolRequestPart Input (with_prop ''metadata'' m q)))
   \<and> (ToolResponsePart Output r \<longrightarrow> ToolResponsePart Output (without ''metadata'' r)
       \<and> (Record_string_any m \<longrightarrow> ToolResponsePart Output (with_prop ''metadata'' m r)))
   \<and> (PendingPart p \<longrightarrow> pending_marked p \<and> \<not> Part (without ''metadata'' p))
   \<and> (Part v \<longrightarrow> member_ok (Opt Record_string_any) (own_prop v ''metadata''))"
  by (intro conjI impI)
    (simp_all add: TextPart_metadata DataPart_metadata MediaPart_metadata ToolRequestPart_metadata
      ToolResponsePart_metadata PendingPart_marked PendingPart_needs_metadata Part_metadata_type)

theorem C7_witness:
  "TextPart (JObj [(''text'', JStr ''hi''), (''metadata'', JObj [])])
   \<and> DataPart (JObj [(''data'', JObj [])])
   \<and> MediaPart (JObj [(''media'', JObj [(''url'', JStr ''u'')])])
   \<and> ToolRequestPart any_t (JObj [(''toolRequest'', JObj [(''name'', JStr ''f'')])])
   \<and> ToolResponsePart any_t (JObj [(''toolResponse'', JObj [(''name'', JStr ''f'')])])
   \<and> PendingPart (JObj [(''metadata'', JObj [(''pending'', JBool True)])])
   \<and> Record_string_any (JObj [(''source'', JStr ''x'')])
   \<and> TextPart (without ''metadata'' (JObj [(''text'', JStr ''hi''), (''metadata'', JObj [])]))
   \<and> DataPart (with_prop ''metadata'' (JObj [(''source'', JStr ''x'')]) (JObj [(''data'', JObj [])]))
   \<and> \<not> Part (without ''metadata'' (JObj [(''metadata'', JObj [(''pending'', JBool True)])]))"
proof -
  have h: "TextPart (JObj [(''text'', JStr ''hi''), (''metadata'', JObj [])])"
    "DataPart (JObj [(''data'', JObj [])])"
    "MediaPart (JObj [(''media'', JObj [(''url'', JStr ''u'')])])"
    "ToolRequestPart any_t (JObj [(''toolRequest'', JObj [(''name'', JStr ''f'')])])"
    "ToolResponsePart any_t (JObj [(''toolResponse'', JObj [(''name'', JStr ''f'')])])"
    "PendingPart (JObj [(''metadata'', JObj [(''pending'', JBool True)])])"
    "Record_string_any (JObj [(''source'', JStr ''x'')])"
    by (simp_all add: TextPart_def DataPart_def MediaPart_def ToolRequestPart_def
        ToolResponsePart_def PendingPart_def EmptyPart_def part_member_defs Record_string_any_def
        string_t_def true_t_def index_t_def any_t_def)
  show ?thesis
    using h C7_metadata_optional_on_payload_parts [of
        "JObj [(''text'', JStr ''hi''), (''metadata'', JObj [])]"
        "JObj [(''source'', JStr ''x'')]"
        "JObj [(''data'', JObj [])]"
        "JObj [(''media'', JObj [(''url'', JStr ''u'')])]"
        any_t "JObj [(''toolRequest'', JObj [(''name'', JStr ''f'')])]"
        any_t "JObj [(''toolResponse'', JObj [(''name'', JStr ''f'')])]"
        "JObj [(''metadata'', JObj [(''pending'', JBool True)])]"
        "JObj [(''text'', JStr ''hi''), (''metadata'', JObj [])]"]
    by blast
qed

subsection \<open>Tool requests and responses\<close>

lemma ToolRequestPart_request:
  assumes "ToolRequestPart Input v"
  shows "\<exists>r n. own_prop v ''toolRequest'' = Some r \<and> own_prop r ''name'' = Some (JStr n)
           \<and> ToolRequestPart Input (with_prop ''toolRequest'' (without ''input'' r) v)
           \<and> ToolRequestPart Input (with_prop ''toolRequest'' (without ''ref'' r) v)
           \<and> \<not> ToolRequestPart Input (with_prop ''toolRequest'' (without ''name'' r) v)"
proof -
  from assms obtain ps where v: "v = JObj ps"
    by (auto simp: ToolRequestPart_def inter_t_def dest: obj_t_is_object)
  from assms obtain r where r: "map_of ps ''toolRequest'' = Some r"
    and ok: "obj_t [(''name'', Req string_t), (''input'', Opt Input), (''ref'', Opt string_t)] r"
    by (auto simp: v ToolRequestPart_def inter_t_def dest: req_present)
  from ok obtain qs where qs: "r = JObj qs"
    by (auto dest: obj_t_is_object)
  from ok obtain n where n: "map_of qs ''name'' = Some (JStr n)"
    by (auto simp: qs dest: req_string)
  from assms ok have "ToolRequestPart Input (with_prop ''toolRequest'' (without ''input'' r) v)"
    "ToolRequestPart Input (with_prop ''toolRequest'' (without ''ref'' r) v)"
    "\<not> ToolRequestPart Input (with_prop ''toolRequest'' (without ''name'' r) v)"
    by (simp_all add: v qs ToolRequestPart_def part_member_defs map_of_without)
  with r n show ?thesis by (simp add: v qs)
qed

lemma ToolResponsePart_response:
  assumes "ToolResponsePart Output v"
  shows "\<exists>r n. own_prop v ''toolResponse'' = Some r \<and> own_prop r ''name'' = Some (JStr n)
           \<and> ToolResponsePart Output (with_prop ''toolResponse'' (without ''output'' r) v)
           \<and> ToolResponsePart Output (with_prop ''toolResponse'' (without ''ref'' r) v)
           \<and> \<not> ToolResponsePart Output (with_prop ''toolResponse'' (without ''name'' r) v)"
proof -
  from assms obtain ps where v: "v = JObj ps"
    by (auto simp: ToolResponsePart_def inter_t_def dest: obj_t_is_object)
  from assms obtain r where r: "map_of ps ''toolResponse'' = Some r"
    and ok: "obj_t [(''name'', Req string_t), (''output'', Opt Output), (''ref'', Opt string_t)] r"
    by (auto simp: v ToolResponsePart_def inter_t_def dest: req_present)
  from ok obtain qs where qs: "r = JObj qs"
    by (auto dest: obj_t_is_object)
  from ok obtain n where n: "map_of qs ''name'' = Some (JStr n)"
    by (auto simp: qs dest: req_string)
  from assms ok have "ToolResponsePart Output (with_prop ''toolResponse'' (without ''output'' r) v)"
    "ToolResponsePart Output (with_prop ''toolResponse'' (without ''ref'' r) v)"
    "\<not> ToolResponsePart Output (with_prop ''toolResponse'' (without ''name'' r) v)"
    by (simp_all add: v qs ToolResponsePart_def part_member_defs map_of_without)
  with r n show ?thesis by (simp add: v qs)
qed

text \<open>
  C8: in a \<open>ToolRequestPart\<close> the request has a string \<open>name\<close>; the part stays valid when
  \<open>input\<close> or \<open>ref\<close> is removed from the request and is invalid when \<open>name\<close> is. The same
  holds of a \<open>ToolResponsePart\<close> with \<open>output\<close> and \<open>ref\<close>. A request that has only a name
  and a response that has only a name are valid parts.
\<close>

theorem C8_tool_parts_name_required:
  "(ToolRequestPart Input q \<longrightarrow>
      (\<exists>r n. own_prop q ''toolRequest'' = Some r \<and> own_prop r ''name'' = Some (JStr n)
         \<and> ToolRequestPart Input (with_prop ''toolRequest'' (without ''input'' r) q)
         \<and> ToolRequestPart Input (with_prop ''toolRequest'' (without ''ref'' r) q)
         \<and> \<not> ToolRequestPart Input (with_prop ''toolRequest'' (without ''name'' r) q)))
   \<and> (ToolResponsePart Output p \<longrightarrow>
      (\<exists>r n. own_prop p ''toolResponse'' = Some r \<and> own_prop r ''name'' = Some (JStr n)
         \<and> ToolResponsePart Output (with_prop ''toolResponse'' (without ''output'' r) p)
         \<and> ToolResponsePart Output (with_prop ''toolResponse'' (without ''ref'' r) p)
         \<and> \<not> ToolResponsePart Output (with_prop ''toolResponse'' (without ''name'' r) p)))
   \<and> ToolRequestPart Input (JObj [(''toolRequest'', JObj [(''name'', JStr n)])])
   \<and> ToolResponsePart Output (JObj [(''toolResponse'', JObj [(''name'', JStr n)])])
   \<and> Part (JObj [(''toolRequest'', JObj [(''name'', JStr n)])])
   \<and> Part (JObj [(''toolResponse'', JObj [(''name'', JStr n)])])"
proof -
  have ex: "ToolRequestPart I (JObj [(''toolRequest'', JObj [(''name'', JStr n)])])"
    "ToolResponsePart I (JObj [(''toolResponse'', JObj [(''name'', JStr n)])])" for I
    by (simp_all add: ToolRequestPart_def ToolResponsePart_def part_member_defs string_t_def)
  then have "Part (JObj [(''toolRequest'', JObj [(''name'', JStr n)])])"
    "Part (JObj [(''toolResponse'', JObj [(''name'', JStr n)])])"
    by (simp_all add: Part_def union_t_def)
  with ex [of Input] ex [of Output] show ?thesis
    using ToolRequestPart_request [of Input q] ToolResponsePart_response [of Output p]
    by blast
qed

theorem C8_witness:
  "ToolRequestPart any_t
     (JObj [(''toolRequest'', JObj [(''name'', JStr ''f''), (''input'', JNum 1)])])
   \<and> ToolResponsePart any_t
     (JObj [(''toolResponse'', JObj [(''name'', JStr ''f''), (''output'', JNum 2)])])
   \<and> ToolRequestPart any_t
     (with_prop ''toolRequest'' (without ''input'' (JObj [(''name'', JStr ''f''), (''input'', JNum 1)]))
        (JObj [(''toolRequest'', JObj [(''name'', JStr ''f''), (''input'', JNum 1)])]))
   \<and> \<not> ToolResponsePart any_t
     (with_prop ''toolResponse'' (without ''name'' (JObj [(''name'', JStr ''f''), (''output'', JNum 2)]))
        (JObj [(''toolResponse'', JObj [(''name'', JStr ''f''), (''output'', JNum 2)])]))
   \<and> Part (JObj [(''toolResponse'', JObj [(''name'', JStr ''f'')])])"
proof -
  have h: "ToolRequestPart any_t
     (JObj [(''toolRequest'', JObj [(''name'', JStr ''f''), (''input'', JNum 1)])])"
    "ToolResponsePart any_t
     (JObj [(''toolResponse'', JObj [(''name'', JStr ''f''), (''output'', JNum 2)])])"
    by (simp_all add: ToolRequestPart_def ToolResponsePart_def part_member_defs string_t_def any_t_def)
  have r: "own_prop (JObj [(''toolRequest'', JObj [(''name'', JStr ''f''), (''input'', JNum 1)])])
      ''toolRequest'' = Some (JObj [(''name'', JStr ''f''), (''input'', JNum 1)])"
    "own_prop (JObj [(''toolResponse'', JObj [(''name'', JStr ''f''), (''output'', JNum 2)])])
      ''toolResponse'' = Some (JObj [(''name'', JStr ''f''), (''output'', JNum 2)])"
    by simp_all
  from C8_tool_parts_name_required [of any_t
        "JObj [(''toolRequest'', JObj [(''name'', JStr ''f''), (''input'', JNum 1)])]"
        any_t
        "JObj [(''toolResponse'', JObj [(''name'', JStr ''f''), (''output'', JNum 2)])]"
        "''f''"] h
  show ?thesis
    unfolding r by (elim conjE impE exE) (simp_all only: option.inject, simp_all only: h simp_thms)
qed

subsection \<open>Media\<close>

lemma not_media_payload:
  assumes "filter (populated v) payload_fields = xs" and "''media'' \<notin> set xs"
  shows "\<not> populated v ''media''"
proof -
  from assms have "''media'' \<notin> set (filter (populated v) payload_fields)"
    by simp
  then have "\<not> (''media'' \<in> set payload_fields \<and> populated v ''media'')"
    by simp
  then show ?thesis by (simp add: payload_fields_def)
qed

lemma media_populated_MediaPart:
  assumes "Part v" and "populated v ''media''"
  shows "MediaPart v"
  using assms(1)
proof (cases rule: Part_cases)
  case 1
  from TextPart_payload [OF 1] have "\<not> populated v ''media''"
    by (rule not_media_payload) simp
  with assms(2) show ?thesis by simp
next
  case 2
  from DataPart_payload [OF 2] have "\<not> populated v ''media''"
    by (rule not_media_payload) simp
  with assms(2) show ?thesis by simp
next
  case 4
  from ToolRequestPart_payload [OF 4] have "\<not> populated v ''media''"
    by (rule not_media_payload) simp
  with assms(2) show ?thesis by simp
next
  case 5
  from ToolResponsePart_payload [OF 5] have "\<not> populated v ''media''"
    by (rule not_media_payload) simp
  with assms(2) show ?thesis by simp
next
  case 6
  from PendingPart_payload [OF 6] have "\<not> populated v ''media''"
    by (rule not_media_payload) simp
  with assms(2) show ?thesis by simp
qed

lemma MediaPart_media:
  assumes "MediaPart v"
  shows "\<exists>m u. own_prop v ''media'' = Some m \<and> own_prop m ''url'' = Some (JStr u)
           \<and> MediaPart (with_prop ''media'' (without ''contentType'' m) v)
           \<and> \<not> MediaPart (with_prop ''media'' (without ''url'' m) v)
           \<and> populated (with_prop ''media'' (without ''url'' m) v) ''media''"
proof -
  from assms obtain ps where v: "v = JObj ps"
    by (auto simp: MediaPart_def inter_t_def dest: obj_t_is_object)
  from assms obtain m where m: "map_of ps ''media'' = Some m"
    and ok: "obj_t [(''url'', Req string_t), (''contentType'', Opt string_t)] m"
    by (auto simp: v MediaPart_def inter_t_def dest: req_present)
  from ok obtain qs where qs: "m = JObj qs"
    by (auto dest: obj_t_is_object)
  from ok obtain u where u: "map_of qs ''url'' = Some (JStr u)"
    by (auto simp: qs dest: req_string)
  from assms ok have "MediaPart (with_prop ''media'' (without ''contentType'' m) v)"
    "\<not> MediaPart (with_prop ''media'' (without ''url'' m) v)"
    "populated (with_prop ''media'' (without ''url'' m) v) ''media''"
    by (simp_all add: v qs MediaPart_def part_member_defs map_of_without populated_def)
  with m u show ?thesis by (simp add: v qs)
qed

text \<open>
  C9: a \<open>Part\<close> whose \<open>media\<close> field is populated has a string \<open>url\<close> in it; it stays a
  \<open>Part\<close> when \<open>contentType\<close> is removed from the media, and is no \<open>Part\<close> when \<open>url\<close> is.
  Media with only a \<open>url\<close> make a valid part, media with only a \<open>contentType\<close> do not.
\<close>

theorem C9_media_url_required:
  "(Part v \<and> populated v ''media'' \<longrightarrow>
      (\<exists>m u. own_prop v ''media'' = Some m \<and> own_prop m ''url'' = Some (JStr u)
         \<and> Part (with_prop ''media'' (without ''contentType'' m) v)
         \<and> \<not> Part (with_prop ''media'' (without ''url'' m) v)))
   \<and> MediaPart (JObj [(''media'', JObj [(''url'', JStr u)])])
   \<and> Part (JObj [(''media'', JObj [(''url'', JStr u)])])
   \<and> \<not> Part (JObj [(''media'', JObj [(''contentType'', JStr c)])])"
proof -
  have ex: "MediaPart (JObj [(''media'', JObj [(''url'', JStr u)])])"
    by (simp add: MediaPart_def part_member_defs string_t_def)
  then have exp: "Part (JObj [(''media'', JObj [(''url'', JStr u)])])"
    by (simp add: Part_def union_t_def)
  have "\<not> MediaPart (JObj [(''media'', JObj [(''contentType'', JStr c)])])"
    by (simp add: MediaPart_def part_member_defs)
  moreover have "populated (JObj [(''media'', JObj [(''contentType'', JStr c)])]) ''media''"
    by (simp add: populated_def)
  ultimately have bad: "\<not> Part (JObj [(''media'', JObj [(''contentType'', JStr c)])])"
    by (auto dest: media_populated_MediaPart)
  have "\<exists>m u. own_prop v ''media'' = Some m \<and> own_prop m ''url'' = Some (JStr u)
         \<and> Part (with_prop ''media'' (without ''contentType'' m) v)
         \<and> \<not> Part (with_prop ''media'' (without ''url'' m) v)"
    if "Part v" "populated v ''media''"
  proof -
    from that have "MediaPart v" by (rule media_populated_MediaPart)
    from MediaPart_media [OF this] obtain m u where
      "own_prop v ''media'' = Some m" "own_prop m ''url'' = Some (JStr u)"
      "MediaPart (with_prop ''media'' (without ''contentType'' m) v)"
      "\<not> MediaPart (with_prop ''media'' (without ''url'' m) v)"
      "populated (with_prop ''media'' (without ''url'' m) v) ''media''"
      by blast
    moreover from this have "Part (with_prop ''media'' (without ''contentType'' m) v)"
      by (simp add: Part_def union_t_def)
    moreover from calculation have "\<not> Part (with_prop ''media'' (without ''url'' m) v)"
      by (blast dest: media_populated_MediaPart)
    ultimately show ?thesis by blast
  qed
  with ex exp bad show ?thesis by blast
qed

theorem C9_witness:
  "Part (JObj [(''media'', JObj [(''url'', JStr ''u''), (''contentType'', JStr ''image/png'')])])
   \<and> populated (JObj [(''media'', JObj [(''url'', JStr ''u''), (''contentType'', JStr ''image/png'')])])
        ''media''
   \<and> Part (with_prop ''media''
        (without ''contentType'' (JObj [(''url'', JStr ''u''), (''contentType'', JStr ''image/png'')]))
        (JObj [(''media'', JObj [(''url'', JStr ''u''), (''contentType'', JStr ''image/png'')])]))
   \<and> \<not> Part (with_prop ''media''
        (without ''url'' (JObj [(''url'', JStr ''u''), (''contentType'', JStr ''image/png'')]))
        (JObj [(''media'', JObj [(''url'', JStr ''u''), (''contentType'', JStr ''image/png'')])]))"
proof -
  have h: "Part (JObj [(''media'', JObj [(''url'', JStr ''u''), (''contentType'', JStr ''image/png'')])])"
    "populated (JObj [(''media'', JObj [(''url'', JStr ''u''), (''contentType'', JStr ''image/png'')])])
        ''media''"
    by (simp_all add: Part_def union_t_def MediaPart_def part_member_defs string_t_def populated_def)
  have m: "own_prop (JObj [(''media'', JObj [(''url'', JStr ''u''), (''contentType'', JStr ''image/png'')])])
      ''media'' = Some (JObj [(''url'', JStr ''u''), (''contentType'', JStr ''image/png'')])"
    by simp
  from C9_media_url_required [of
      "JObj [(''media'', JObj [(''url'', JStr ''u''), (''contentType'', JStr ''image/png'')])]"
      "''u''" "''c''"] h
  show ?thesis
    unfolding m by (elim conjE impE exE) (simp_all only: option.inject, simp_all only: h simp_thms)
qed

section \<open>ToolDefinition\<close>

text \<open>
  C6: a \<open>ToolDefinition\<close> has a string \<open>name\<close> and an \<open>inputSchema\<close>; it stays one when
  \<open>description\<close>, \<open>outputSchema\<close> or both are removed, and stops being one when \<open>name\<close>
  or \<open>inputSchema\<close> is removed. Two definitions of the same name are accepted side by
  side in \<open>toolDefs\<close>: no type asks for distinct names.
\<close>

theorem C6_ToolDefinition_members:
  "(ToolDefinition v \<longrightarrow>
      (\<exists>n. own_prop v ''name'' = Some (JStr n))
      \<and> (\<exists>s. own_prop v ''inputSchema'' = Some s \<and> Schema s)
      \<and> ToolDefinition (without ''description'' v)
      \<and> ToolDefinition (without ''outputSchema'' v)
      \<and> ToolDefinition (without ''description'' (without ''outputSchema'' v))
      \<and> \<not> ToolDefinition (without ''name'' v)
      \<and> \<not> ToolDefinition (without ''inputSchema'' v)
      \<and> array_t ToolDefinition (JArr [v, v])
      \<and> PromptMetadata ModelConfig (JObj [(''toolDefs'', JArr [v, v])]))
   \<and> ToolDefinition (JObj [(''name'', JStr n), (''inputSchema'', JObj ps)])"
proof -
  have "ToolDefinition (JObj [(''name'', JStr n), (''inputSchema'', JObj ps)])"
    by (simp add: ToolDefinition_def ToolDefinition_members_def string_t_def Schema_def
        Record_string_any_def)
  moreover have "(\<exists>n. own_prop v ''name'' = Some (JStr n))
      \<and> (\<exists>s. own_prop v ''inputSchema'' = Some s \<and> Schema s)
      \<and> ToolDefinition (without ''description'' v)
      \<and> ToolDefinition (without ''outputSchema'' v)
      \<and> ToolDefinition (without ''description'' (without ''outputSchema'' v))
      \<and> \<not> ToolDefinition (without ''name'' v)
      \<and> \<not> ToolDefinition (without ''inputSchema'' v)
      \<and> array_t ToolDefinition (JArr [v, v])
      \<and> PromptMetadata ModelConfig (JObj [(''toolDefs'', JArr [v, v])])" if td: "ToolDefinition v"
  proof -
    from td obtain qs where v: "v = JObj qs"
      by (auto dest: ToolDefinition_is_object)
    from td have ms: "member_ok (Req string_t) (map_of qs ''name'')"
      "member_ok (Opt string_t) (map_of qs ''description'')"
      "member_ok (Req Schema) (map_of qs ''inputSchema'')"
      "member_ok (Opt Schema) (map_of qs ''outputSchema'')"
      by (simp_all add: v ToolDefinition_def ToolDefinition_members_def)
    from ms(1) have "\<exists>n. own_prop v ''name'' = Some (JStr n)"
      by (auto simp: v dest: req_string)
    moreover from ms(3) have "\<exists>s. own_prop v ''inputSchema'' = Some s \<and> Schema s"
      by (auto simp: v dest: req_present)
    moreover from ms have "ToolDefinition (without ''description'' v)"
      "ToolDefinition (without ''outputSchema'' v)"
      "ToolDefinition (without ''description'' (without ''outputSchema'' v))"
      "\<not> ToolDefinition (without ''name'' v)"
      "\<not> ToolDefinition (without ''inputSchema'' v)"
      by (simp_all add: v ToolDefinition_def ToolDefinition_members_def map_of_without
          del: filter_filter)
    moreover from td have "array_t ToolDefinition (JArr [v, v])"
      "PromptMetadata ModelConfig (JObj [(''toolDefs'', JArr [v, v])])"
      by (simp_all add: PromptMetadata_def PromptMetadata_members_def HasMetadata_members_def)
    ultimately show ?thesis by blast
  qed
  ultimately show ?thesis by blast
qed

theorem C6_witness:
  "ToolDefinition (JObj [(''name'', JStr ''search''), (''description'', JStr ''web''),
                         (''inputSchema'', JObj [])])
   \<and> ToolDefinition (without ''description''
        (JObj [(''name'', JStr ''search''), (''description'', JStr ''web''),
               (''inputSchema'', JObj [])]))
   \<and> \<not> ToolDefinition (without ''name''
        (JObj [(''name'', JStr ''search''), (''description'', JStr ''web''),
               (''inputSchema'', JObj [])]))"
proof -
  have "ToolDefinition (JObj [(''name'', JStr ''search''), (''description'', JStr ''web''),
                         (''inputSchema'', JObj [])])"
    by (simp add: ToolDefinition_def ToolDefinition_members_def string_t_def Schema_def
        Record_string_any_def)
  then show ?thesis
    using C6_ToolDefinition_members [of
        "JObj [(''name'', JStr ''search''), (''description'', JStr ''web''), (''inputSchema'', JObj [])]"
        Record_string_any "''x''" "[]"]
    by blast
qed

section \<open>PromptMetadata and RenderedPrompt\<close>

text \<open>
  C2: a \<open>RenderedPrompt\<close> is a \<open>PromptMetadata\<close> that also has the member \<open>messages\<close>, an
  array of \<open>Message\<close> values. Every member of \<open>PromptMetadata\<close> may be absent (the object
  with no properties is one), \<open>messages\<close> may not: that object is no \<open>RenderedPrompt\<close>, and
  the object holding only an empty \<open>messages\<close> array is.
\<close>

theorem C2_messages_required:
  "(RenderedPrompt ModelConfig v \<longleftrightarrow>
      PromptMetadata ModelConfig v \<and>
      (\<exists>ms. own_prop v ''messages'' = Some (JArr ms) \<and> list_all Message ms))
   \<and> PromptMetadata ModelConfig (JObj [])
   \<and> \<not> RenderedPrompt ModelConfig (JObj [])
   \<and> RenderedPrompt ModelConfig (JObj [(''messages'', JArr [])])"
proof -
  have "RenderedPrompt ModelConfig v \<longleftrightarrow>
      PromptMetadata ModelConfig v \<and>
      (\<exists>ms. own_prop v ''messages'' = Some (JArr ms) \<and> list_all Message ms)"
  proof (cases v)
    case (JObj ps)
    have "member_ok (Req (array_t Message)) (map_of ps ''messages'') \<longleftrightarrow>
          (\<exists>ms. map_of ps ''messages'' = Some (JArr ms) \<and> list_all Message ms)"
      by (auto dest: req_array)
    then show ?thesis
      by (simp add: JObj RenderedPrompt_def RenderedPrompt_members_def PromptMetadata_def)
  qed (simp_all add: RenderedPrompt_def PromptMetadata_def obj_t_def)
  moreover have "PromptMetadata ModelConfig (JObj [])"
    by (simp add: PromptMetadata_def PromptMetadata_members_def HasMetadata_members_def)
  moreover have "\<not> RenderedPrompt ModelConfig (JObj [])"
    by (simp add: RenderedPrompt_def RenderedPrompt_members_def)
  moreover have "RenderedPrompt ModelConfig (JObj [(''messages'', JArr [])])"
    by (simp add: RenderedPrompt_def RenderedPrompt_members_def PromptMetadata_members_def
        HasMetadata_members_def)
  ultimately show ?thesis by blast
qed

theorem C2_witness:
  "RenderedPrompt Record_string_any
     (JObj [(''messages'', JArr [JObj [(''role'', JStr ''user''), (''content'', JArr [])]])])
   \<and> PromptMetadata Record_string_any
     (JObj [(''messages'', JArr [JObj [(''role'', JStr ''user''), (''content'', JArr [])]])])"
proof -
  have "Message (JObj [(''role'', JStr ''user''), (''content'', JArr [])])"
    by (simp add: Message_def Message_members_def HasMetadata_members_def union_t_def lit_t_def)
  moreover have "PromptMetadata Record_string_any
     (JObj [(''messages'', JArr [JObj [(''role'', JStr ''user''), (''content'', JArr [])]])])"
    by (simp add: PromptMetadata_def PromptMetadata_members_def HasMetadata_members_def)
  ultimately show ?thesis
    using C2_messages_required [of Record_string_any
        "JObj [(''messages'', JArr [JObj [(''role'', JStr ''user''), (''content'', JArr [])]])]"]
    by simp
qed

section \<open>Metadata inherited from HasMetadata\<close>

lemma PromptMetadata_metadata:
  assumes "PromptMetadata ModelConfig v"
  shows "PromptMetadata ModelConfig (without ''metadata'' v)"
    and "Record_string_any m \<Longrightarrow> PromptMetadata ModelConfig (with_prop ''metadata'' m v)"
    and "member_ok (Opt Record_string_any) (own_prop v ''metadata'')"
proof -
  from assms obtain ps where v: "v = JObj ps"
    by (auto simp: PromptMetadata_def dest: obj_t_is_object)
  from assms show "PromptMetadata ModelConfig (without ''metadata'' v)"
    by (simp add: v PromptMetadata_def PromptMetadata_members_def HasMetadata_members_def
        map_of_without)
  from assms show "Record_string_any m \<Longrightarrow> PromptMetadata ModelConfig (with_prop ''metadata'' m v)"
    by (simp add: v PromptMetadata_def PromptMetadata_members_def HasMetadata_members_def)
  from assms show "member_ok (Opt Record_string_any) (own_prop v ''metadata'')"
    by (simp add: v PromptMetadata_def PromptMetadata_members_def HasMetadata_members_def)
qed

lemma RenderedPrompt_metadata:
  assumes "RenderedPrompt ModelConfig v"
  shows "RenderedPrompt ModelConfig (without ''metadata'' v)"
    and "Record_string_any m \<Longrightarrow> RenderedPrompt ModelConfig (with_prop ''metadata'' m v)"
    and "member_ok (Opt Record_string_any) (own_prop v ''metadata'')"
proof -
  from assms obtain ps where v: "v = JObj ps"
    by (auto simp: RenderedPrompt_def dest: obj_t_is_object)
  from assms show "RenderedPrompt ModelConfig (without ''metadata'' v)"
    by (simp add: v RenderedPrompt_def RenderedPrompt_members_def PromptMetadata_members_def
        HasMetadata_members_def map_of_without)
  from assms show "Record_string_any m \<Longrightarrow> RenderedPrompt ModelConfig (with_prop ''metadata'' m v)"
    by (simp add: v RenderedPrompt_def RenderedPrompt_members_def PromptMetadata_members_def
        HasMetadata_members_def)
  from assms show "member_ok (Opt Record_string_any) (own_prop v ''metadata'')"
    by (simp add: v RenderedPrompt_def RenderedPrompt_members_def PromptMetadata_members_def
        HasMetadata_members_def)
qed

lemma Message_metadata:
  assumes "Message v"
  shows "Message (without ''metadata'' v)"
    and "Record_string_any m \<Longrightarrow> Message (with_prop ''metadata'' m v)"
    and "member_ok (Opt Record_string_any) (own_prop v ''metadata'')"
proof -
  from assms obtain ps where v: "v = JObj ps"
    by (auto simp: Message_def dest: obj_t_is_object)
  from assms show "Message (without ''metadata'' v)"
    by (simp add: v Message_def Message_members_def HasMetadata_members_def map_of_without)
  from assms show "Record_string_any m \<Longrightarrow> Message (with_prop ''metadata'' m v)"
    by (simp add: v Message_def Message_members_def HasMetadata_members_def)
  from assms show "member_ok (Opt Record_string_any) (own_prop v ''metadata'')"
    by (simp add: v Message_def Message_members_def HasMetadata_members_def)
qed

lemma Document_metadata:
  assumes "Document v"
  shows "Document (without ''metadata'' v)"
    and "Record_string_any m \<Longrightarrow> Document (with_prop ''metadata'' m v)"
    and "member_ok (Opt Record_string_any) (own_prop v ''metadata'')"
proof -
  from assms obtain ps where v: "v = JObj ps"
    by (auto simp: Document_def dest: obj_t_is_object)
  from assms show "Document (without ''metadata'' v)"
    by (simp add: v Document_def Document_members_def HasMetadata_members_def map_of_without)
  from assms show "Record_string_any m \<Longrightarrow> Document (with_prop ''metadata'' m v)"
    by (simp add: v Document_def Document_members_def HasMetadata_members_def)
  from assms show "member_ok (Opt Record_string_any) (own_prop v ''metadata'')"
    by (simp add: v Document_def Document_members_def HasMetadata_members_def)
qed

text \<open>
  C10: \<open>PromptMetadata\<close>, \<open>RenderedPrompt\<close>, \<open>Message\<close> and \<open>Document\<close> each take the
  optional member \<open>metadata\<close> from \<open>HasMetadata\<close>: a value of the type stays one without
  \<open>metadata\<close> and with any \<^verbatim>\<open>Record<string, any>\<close> as \<open>metadata\<close>, and the \<open>metadata\<close> of
  a value of the type is missing, \<^verbatim>\<open>undefined\<close> or such a record.
\<close>

theorem C10_metadata_inherited:
  "(PromptMetadata ModelConfig p \<longrightarrow>
      PromptMetadata ModelConfig (without ''metadata'' p)
      \<and> (Record_string_any m \<longrightarrow> PromptMetadata ModelConfig (with_prop ''metadata'' m p))
      \<and> member_ok (Opt Record_string_any) (own_prop p ''metadata''))
   \<and> (RenderedPrompt ModelConfig r \<longrightarrow>
      RenderedPrompt ModelConfig (without ''metadata'' r)
      \<and> (Record_string_any m \<longrightarrow> RenderedPrompt ModelConfig (with_prop ''metadata'' m r))
      \<and> member_ok (Opt Record_string_any) (own_prop r ''metadata''))
   \<and> (Message g \<longrightarrow>
      Message (without ''metadata'' g)
      \<and> (Record_string_any m \<longrightarrow> Message (with_prop ''metadata'' m g))
      \<and> member_ok (Opt Record_string_any) (own_prop g ''metadata''))
   \<and> (Document d \<longrightarrow>
      Document (without ''metadata'' d)
      \<and> (Record_string_any m \<longrightarrow> Document (with_prop ''metadata'' m d))
      \<and> member_ok (Opt Record_string_any) (own_prop d ''metadata''))"
  by (intro conjI impI)
    (simp_all add: PromptMetadata_metadata RenderedPrompt_metadata Message_metadata
      Document_metadata)

theorem C10_witness:
  "PromptMetadata Record_string_any (JObj [(''name'', JStr ''greet'')])
   \<and> RenderedPrompt Record_string_any (JObj [(''messages'', JArr [])])
   \<and> Message (JObj [(''role'', JStr ''user''), (''content'', JArr [])])
   \<and> Document (JObj [(''content'', JArr [])])
   \<and> Record_string_any (JObj [(''source'', JStr ''x'')])
   \<and> PromptMetadata Record_string_any
        (with_prop ''metadata'' (JObj [(''source'', JStr ''x'')]) (JObj [(''name'', JStr ''greet'')]))
   \<and> RenderedPrompt Record_string_any
        (with_prop ''metadata'' (JObj [(''source'', JStr ''x'')]) (JObj [(''messages'', JArr [])]))
   \<and> Message
        (with_prop ''metadata'' (JObj [(''source'', JStr ''x'')])
           (JObj [(''role'', JStr ''user''), (''content'', JArr [])]))
   \<and> Document
        (with_prop ''metadata'' (JObj [(''source'', JStr ''x'')]) (JObj [(''content'', JArr [])]))"
proof -
  have h: "PromptMetadata Record_string_any (JObj [(''name'', JStr ''greet'')])"
    "RenderedPrompt Record_string_any (JObj [(''messages'', JArr [])])"
    "Message (JObj [(''role'', JStr ''user''), (''content'', JArr [])])"
    "Document (JObj [(''content'', JArr [])])"
    "Record_string_any (JObj [(''source'', JStr ''x'')])"
    by (simp_all add: PromptMetadata_def RenderedPrompt_def RenderedPrompt_members_def
        PromptMetadata_members_def Message_def Message_members_def Document_def
        Document_members_def HasMetadata_members_def Record_string_any_def string_t_def
        union_t_def lit_t_def)
  show ?thesis
    using h C10_metadata_inherited [of Record_string_any
        "JObj [(''name'', JStr ''greet'')]"
        "JObj [(''source'', JStr ''x'')]"
        "JObj [(''messages'', JArr [])]"
        "JObj [(''role'', JStr ''user''), (''content'', JArr [])]"
        "JObj [(''content'', JArr [])]"]
    by blast
qed

section \<open>DataArgument\<close>

text \<open>
  C4: every field of \<open>DataArgument\<close> (input, docs, messages, context) is optional, so the
  value with all four fields absent is a valid \<open>DataArgument\<close>, whatever the type of the
  input variables.
\<close>

theorem C4_empty_DataArgument_valid:
  "DataArgument Variables (JObj [])"
  by (simp add: DataArgument_def DataArgument_members_def obj_t_def)

section \<open>CompiledPrompt\<close>

text \<open>
  C3: a \<open>CompiledPrompt\<close> is called with a \<open>DataArgument\<close> alone, or with a \<open>DataArgument\<close>
  and a second argument that is \<^verbatim>\<open>undefined\<close> or a \<open>PromptMetadata\<close>; it is not called with
  no argument or with more than two. What it returns is a promise, and a value the
  promise fulfils with is a \<open>RenderedPrompt\<close>.
\<close>

theorem C3_CompiledPrompt_call:
  "accepts (CompiledPrompt ModelConfig) [d] = DataArgument any_t d
   \<and> accepts (CompiledPrompt ModelConfig) [d, opts] =
       (DataArgument any_t d \<and> (opts = JUndefined \<or> PromptMetadata ModelConfig opts))
   \<and> \<not> accepts (CompiledPrompt ModelConfig) []
   \<and> \<not> accepts (CompiledPrompt ModelConfig) (d # opts # x # xs)
   \<and> result (CompiledPrompt ModelConfig) r =
       (\<exists>p. r = JPromise p \<and> (case p of Fulfilled y \<Rightarrow> RenderedPrompt ModelConfig y | _ \<Rightarrow> True))"
proof -
  have "result (CompiledPrompt ModelConfig) r =
       (\<exists>p. r = JPromise p \<and> (case p of Fulfilled y \<Rightarrow> RenderedPrompt ModelConfig y | _ \<Rightarrow> True))"
    by (cases r) (auto simp: CompiledPrompt_def Promise_def split: settlement.splits)
  then show ?thesis
    by (simp add: accepts_def CompiledPrompt_def)
qed

theorem C3_witness:
  "accepts (CompiledPrompt Record_string_any) [JObj []]
   \<and> accepts (CompiledPrompt Record_string_any) [JObj [], JObj [(''model'', JStr ''m'')]]
   \<and> result (CompiledPrompt Record_string_any)
        (JPromise (Fulfilled (JObj [(''messages'', JArr [])])))"
proof -
  have "DataArgument any_t (JObj [])"
    by (simp add: DataArgument_def DataArgument_members_def)
  moreover have "PromptMetadata Record_string_any (JObj [(''model'', JStr ''m'')])"
    by (simp add: PromptMetadata_def PromptMetadata_members_def HasMetadata_members_def string_t_def)
  moreover have "RenderedPrompt Record_string_any (JObj [(''messages'', JArr [])])"
    by (simp add: RenderedPrompt_def RenderedPrompt_members_def PromptMetadata_members_def
        HasMetadata_members_def)
  ultimately show ?thesis
    using C3_CompiledPrompt_call [of Record_string_any "JObj []" "JObj [(''model'', JStr ''m'')]"
        JUndefined "[]" "JPromise (Fulfilled (JObj [(''messages'', JArr [])]))"]
    by simp
qed

section \<open>Resolvers\<close>

text \<open>
  The result type of \<open>ToolResolver\<close> is the union of \<open>ToolDefinition\<close>, \<^verbatim>\<open>null\<close> and a
  promise of the two; that of \<open>SchemaResolver\<close> is the same union over \<open>JSONSchema\<close>, which
  is \<^verbatim>\<open>any\<close>.
\<close>

lemma ToolResolver_result:
  "result ToolResolver r =
     (case r of
        JPromise (Fulfilled x) \<Rightarrow> null_t x \<or> ToolDefinition x
      | JPromise _ \<Rightarrow> True
      | _ \<Rightarrow> null_t r \<or> ToolDefinition r)"
proof (cases r)
  case (JPromise p)
  then show ?thesis
    by (cases p) (auto simp: ToolResolver_def union_t_def Promise_def null_t_def
        dest: ToolDefinition_is_object)
qed (auto simp: ToolResolver_def union_t_def Promise_def null_t_def)

lemma SchemaResolver_result: "result SchemaResolver r"
  by (simp add: SchemaResolver_def union_t_def JSONSchema_def any_t_def)

text \<open>
  Read for both resolvers, "the absent result is distinguishable from any successfully
  resolved value" fails at \<open>SchemaResolver\<close>: the type of a resolved schema is
  \<open>JSONSchema\<close>, and null, the absent result, is a value of it, returned directly or
  through a promise.
\<close>

theorem C5_null_is_a_JSONSchema_counterexample:
  "null_t JNull \<and> JSONSchema JNull
   \<and> result SchemaResolver JNull \<and> result SchemaResolver (JPromise (Fulfilled JNull))"
  by (simp add: null_t_def JSONSchema_def any_t_def SchemaResolver_result)

text \<open>
  C5, amended: a \<open>ToolResolver\<close> returns null, a \<open>ToolDefinition\<close>, or a promise that
  fulfils with one of the two, and nothing else; no value is both null and a
  \<open>ToolDefinition\<close>, so every result the type admits is the absent one or a resolved
  definition and never both, a definition with an empty input schema included. A
  \<open>SchemaResolver\<close> may return null as well, directly or through a promise, but its
  result type admits every value and the type of a resolved schema admits null itself:
  there the absent result is told apart from the values that are not null, the empty
  schema \<^verbatim>\<open>{}\<close> among them, and from nothing more.
\<close>

theorem C5_null_apart_from_ToolDefinition:
  "result ToolResolver r =
     (case r of
        JPromise (Fulfilled x) \<Rightarrow> null_t x \<noteq> ToolDefinition x
      | JPromise _ \<Rightarrow> True
      | _ \<Rightarrow> null_t r \<noteq> ToolDefinition r)
   \<and> \<not> (null_t v \<and> ToolDefinition v)
   \<and> result ToolResolver JNull \<and> result ToolResolver (JPromise (Fulfilled JNull))
   \<and> (ToolDefinition d \<longrightarrow>
        result ToolResolver d \<and> result ToolResolver (JPromise (Fulfilled d))
        \<and> d \<noteq> JNull \<and> d \<noteq> JPromise (Fulfilled JNull))
   \<and> ToolDefinition (JObj [(''name'', JStr n), (''inputSchema'', JObj [])])
   \<and> result SchemaResolver s
   \<and> JSONSchema s
   \<and> (JSONSchema s \<and> null_t s) = (s = JNull)
   \<and> Schema (JObj []) \<and> JSONSchema (JObj []) \<and> \<not> null_t (JObj [])"
proof -
  have apart: "\<not> (null_t v \<and> ToolDefinition v)" for v
    by (auto simp: null_t_def dest: ToolDefinition_is_object)
  have xor: "(null_t x \<or> ToolDefinition x) = (null_t x \<noteq> ToolDefinition x)" for x
    using apart [of x] by blast
  have res: "result ToolResolver r =
     (case r of
        JPromise (Fulfilled x) \<Rightarrow> null_t x \<noteq> ToolDefinition x
      | JPromise _ \<Rightarrow> True
      | _ \<Rightarrow> null_t r \<noteq> ToolDefinition r)"
    unfolding ToolResolver_result
    by (simp only: xor)
  have null: "result ToolResolver JNull" "result ToolResolver (JPromise (Fulfilled JNull))"
    by (simp_all add: ToolResolver_result null_t_def)
  have tool: "result ToolResolver d \<and> result ToolResolver (JPromise (Fulfilled d))
        \<and> d \<noteq> JNull \<and> d \<noteq> JPromise (Fulfilled JNull)" if "ToolDefinition d"
    using that ToolDefinition_is_object [OF that]
    by (auto simp: ToolResolver_result)
  have ex: "ToolDefinition (JObj [(''name'', JStr n), (''inputSchema'', JObj [])])"
    by (simp add: ToolDefinition_def ToolDefinition_members_def string_t_def Schema_def
        Record_string_any_def)
  have schema: "JSONSchema s" "(JSONSchema s \<and> null_t s) = (s = JNull)"
    "Schema (JObj [])" "JSONSchema (JObj [])" "\<not> null_t (JObj [])"
    by (simp_all add: JSONSchema_def any_t_def null_t_def Schema_def Record_string_any_def)
  from res apart null tool ex SchemaResolver_result [of s] schema show ?thesis
    by blast
qed

theorem C5_witness:
  "ToolDefinition (JObj [(''name'', JStr ''search''), (''inputSchema'', JObj [])])
   \<and> result ToolResolver (JObj [(''name'', JStr ''search''), (''inputSchema'', JObj [])])
   \<and> result ToolResolver
        (JPromise (Fulfilled (JObj [(''name'', JStr ''search''), (''inputSchema'', JObj [])])))
   \<and> \<not> null_t (JObj [(''name'', JStr ''search''), (''inputSchema'', JObj [])])
   \<and> result ToolResolver JNull
   \<and> \<not> result ToolResolver (JStr ''search'')
   \<and> result SchemaResolver (JObj [])
   \<and> \<not> null_t (JObj [])"
proof -
  have "\<not> result ToolResolver (JStr ''search'')"
    by (simp add: ToolResolver_result null_t_def ToolDefinition_def obj_t_def)
  then show ?thesis
    using C5_null_apart_from_ToolDefinition [of
        "JObj [(''name'', JStr ''search''), (''inputSchema'', JObj [])]"
        "JObj [(''name'', JStr ''search''), (''inputSchema'', JObj [])]"
        "JObj [(''name'', JStr ''search''), (''inputSchema'', JObj [])]"
        "''search''" "JObj []"]
    by (simp add: null_t_def)
qed

end
